theory Spec2Isabelle
  imports Main
begin

section \<open>Strings of the JavaScript runtime\<close>

text \<open>
  Source strings are modelled as \<^typ>\<open>string\<close>, one \<^typ>\<open>char\<close> per character; the
  built-ins below are the ones the repository calls, restricted to what it passes them
  (single-character separators, ASCII case mapping, ASCII white space).
\<close>

text \<open>\<^verbatim>\<open>s.split(sep)\<close> for a one-character separator: never an empty array.\<close>

fun split :: "char \<Rightarrow> string \<Rightarrow> string list" where
  "split sep [] = [[]]"
| "split sep (c # cs) =
     (if c = sep then [] # split sep cs
      else (case split sep cs of
              [] \<Rightarrow> [[c]]
            | w # ws \<Rightarrow> (c # w) # ws))"

text \<open>\<^verbatim>\<open>arr.pop()\<close> read as a value: the last element, \<^verbatim>\<open>undefined\<close> on an empty array.\<close>

definition pop :: "'a list \<Rightarrow> 'a option" where
  "pop xs = (if xs = [] then None else Some (last xs))"

text \<open>\<^verbatim>\<open>toLowerCase\<close> maps the letters A to Z and leaves every other character.\<close>

definition toLowerChar :: "char \<Rightarrow> char" where
  "toLowerChar c =
     (case map_of (zip ''ABCDEFGHIJKLMNOPQRSTUVWXYZ'' ''abcdefghijklmnopqrstuvwxyz'') c of
        None \<Rightarrow> c
      | Some l \<Rightarrow> l)"

definition toLowerCase :: "string \<Rightarrow> string" where
  "toLowerCase s = map toLowerChar s"

text \<open>\<^verbatim>\<open>s.endsWith(t)\<close>.\<close>

definition endsWith :: "string \<Rightarrow> string \<Rightarrow> bool" where
  "endsWith s t = (length t \<le> length s \<and> drop (length s - length t) s = t)"

text \<open>\<^verbatim>\<open>s.includes(t)\<close>: \<open>t\<close> occurs in \<open>s\<close> as a contiguous run.\<close>

fun startsWith :: "string \<Rightarrow> string \<Rightarrow> bool" where
  "startsWith s [] = True"
| "startsWith [] (c # t) = False"
| "startsWith (d # s) (c # t) = (d = c \<and> startsWith s t)"

fun includes_str :: "string \<Rightarrow> string \<Rightarrow> bool" where
  "includes_str [] t = (t = [])"
| "includes_str (c # s) t = (startsWith (c # s) t \<or> includes_str s t)"

text \<open>The number of (possibly overlapping) places where \<open>t\<close> starts in \<open>s\<close>.\<close>

fun occurrences :: "string \<Rightarrow> string \<Rightarrow> nat" where
  "occurrences [] t = 0"
| "occurrences (c # s) t = (if startsWith (c # s) t then 1 else 0) + occurrences s t"

text \<open>\<^verbatim>\<open>arr.join(sep)\<close> on an array of strings, as the runtime's loop builds it.\<close>

fun join_from :: "string \<Rightarrow> string \<Rightarrow> string list \<Rightarrow> string" where
  "join_from sep acc [] = acc"
| "join_from sep acc (x # xs) = join_from sep (acc @ sep @ x) xs"

definition join :: "string \<Rightarrow> string list \<Rightarrow> string" where
  "join sep xs = (case xs of [] \<Rightarrow> [] | x # rest \<Rightarrow> join_from sep x rest)"

text \<open>White space of \<^verbatim>\<open>\s\<close> and \<^verbatim>\<open>trim()\<close> within ASCII: tab, line feed, vertical tab,
  form feed, carriage return, space.\<close>

definition isSpace :: "char \<Rightarrow> bool" where
  "isSpace c = (c \<in> set [CHR 0x09, CHR 0x0A, CHR 0x0B, CHR 0x0C, CHR 0x0D, CHR 0x20])"

definition trim :: "string \<Rightarrow> string" where
  "trim s = rev (dropWhile isSpace (rev (dropWhile isSpace s)))"

text \<open>\<^verbatim>\<open>\w\<close>: ASCII letters, digits and the underscore.\<close>

definition isWord :: "char \<Rightarrow> bool" where
  "isWord c =
     (c \<in> set ''abcdefghijklmnopqrstuvwxyzABCDEFGHIJKLMNOPQRSTUVWXYZ0123456789_'')"

text \<open>Decimal text of a non-negative number, as template literals print it.\<close>

definition digitChar :: "nat \<Rightarrow> char" where
  "digitChar d = ''0123456789'' ! d"

fun digits :: "nat \<Rightarrow> string" where
  "digits n = (if n < 10 then [digitChar n] else digits (n div 10) @ [digitChar (n mod 10)])"

declare digits.simps [simp del]

section \<open>lib/github-api.ts: the repository client\<close>

text \<open>A failed request: the thrown error, carrying status and message text.\<close>

datatype api_error = ApiError nat string

type_synonym 'a response = "api_error + 'a"

text \<open>Interface \<^verbatim>\<open>GitHubRepo\<close>; field \<open>f\<close> of the source is \<open>repo_f\<close> here.\<close>

record GitHubRepo =
  repo_id :: int
  repo_name :: string
  repo_full_name :: string
  repo_description :: string
  repo_language :: string
  repo_private :: bool

text \<open>
  \<^verbatim>\<open>getRepositories\<close>: the argument is the host's answer to the one request
  \<^verbatim>\<open>/user/repos?sort=updated&per_page=100\<close>; a failed request propagates.
\<close>

definition getRepositories :: "GitHubRepo list response \<Rightarrow> GitHubRepo list response" where
  "getRepositories reply =
     (case reply of
        Inl e \<Rightarrow> Inl e
      | Inr repos \<Rightarrow> Inr (filter (\<lambda>repo. \<not> repo_private repo \<or> True) repos))"

text \<open>
  The host as \<^verbatim>\<open>createBranch\<close> sees it: the answer to \<^verbatim>\<open>getBranch\<close> (the commit sha of
  the branch, or a failure, which also stands for an answer without \<^verbatim>\<open>commit\<close>), and
  the answer to the POST on \<^verbatim>\<open>git/refs\<close>. Arguments are owner, repository, then the
  branch or the pair of new ref and sha.
\<close>

record host =
  getBranch :: "string \<Rightarrow> string \<Rightarrow> string \<Rightarrow> string response"
  postRef :: "string \<Rightarrow> string \<Rightarrow> string \<Rightarrow> string \<Rightarrow> string response"

text \<open>The requests a call issues, in order.\<close>

datatype request =
    GetBranch string string string
  | PostRef string string string string

text \<open>
  \<^verbatim>\<open>createBranch\<close>. The POST is returned without \<^verbatim>\<open>await\<close>, so its rejection leaves the
  \<^verbatim>\<open>try\<close> block uncaught: only a failure of \<^verbatim>\<open>getBranch\<close> reaches the \<^verbatim>\<open>catch\<close>.
  The result is paired with the requests issued. A call that leaves \<^verbatim>\<open>fromBranch\<close> out
  is the call with \<^verbatim>\<open>"main"\<close>.
\<close>

function createBranch ::
  "host \<Rightarrow> string \<Rightarrow> string \<Rightarrow> string \<Rightarrow> string \<Rightarrow> request list \<times> string response" where
  "createBranch h owner repo newBranch fromBranch =
     (case getBranch h owner repo fromBranch of
        Inr sha \<Rightarrow>
          ([GetBranch owner repo fromBranch,
            PostRef owner repo (''refs/heads/'' @ newBranch) sha],
           postRef h owner repo (''refs/heads/'' @ newBranch) sha)
      | Inl e \<Rightarrow>
          (if fromBranch = ''main''
           then (case createBranch h owner repo newBranch ''master'' of
                   (reqs, r) \<Rightarrow> (GetBranch owner repo fromBranch # reqs, r))
           else ([GetBranch owner repo fromBranch], Inl e)))"
  by pat_completeness auto
termination
  by (relation "measure (\<lambda>(h, owner, repo, newBranch, fromBranch).
        if fromBranch = ''main'' then 1 else 0)") auto

text \<open>How many \<^verbatim>\<open>getBranch\<close> requests a run issued.\<close>

definition lookups :: "request list \<Rightarrow> nat" where
  "lookups reqs = length (filter (\<lambda>q. case q of GetBranch a b c \<Rightarrow> True | PostRef a b c d \<Rightarrow> False) reqs)"

text \<open>
  \<^verbatim>\<open>getFileLanguage\<close>. \<^verbatim>\<open>languageMap\<close> is the table of the source, read by own keys (of
  the keys an object literal inherits, only \<^verbatim>\<open>constructor\<close> and \<^verbatim>\<open>__proto__\<close> are lower
  case; neither is a key the tree builder ever looks up, see \<open>isTestableFile\<close>).
\<close>

definition languageMap :: "(string \<times> string) list" where
  "languageMap =
     [(''js'', ''JavaScript''), (''jsx'', ''React''), (''ts'', ''TypeScript''),
      (''tsx'', ''React''), (''py'', ''Python''), (''java'', ''Java''), (''cpp'', ''C++''),
      (''c'', ''C''), (''cs'', ''C#''), (''php'', ''PHP''), (''rb'', ''Ruby''), (''go'', ''Go''),
      (''rs'', ''Rust''), (''kt'', ''Kotlin''), (''swift'', ''Swift'')]"

text \<open>\<^verbatim>\<open>filename.split(".").pop()?.toLowerCase()\<close>, \<^verbatim>\<open>undefined\<close> as \<open>None\<close>.\<close>

definition ext_of :: "string \<Rightarrow> string option" where
  "ext_of filename = map_option toLowerCase (pop (split CHR ''.'' filename))"

text \<open>\<^verbatim>\<open>ext || ""\<close>.\<close>

definition or_empty :: "string option \<Rightarrow> string" where
  "or_empty ext = (case ext of None \<Rightarrow> [] | Some e \<Rightarrow> e)"

definition getFileLanguage :: "string \<Rightarrow> string" where
  "getFileLanguage filename =
     (case map_of languageMap (or_empty (ext_of filename)) of
        None \<Rightarrow> ''Unknown''
      | Some l \<Rightarrow> if l = [] then ''Unknown'' else l)"

definition testableExtensions :: "string list" where
  "testableExtensions =
     [''js'', ''jsx'', ''ts'', ''tsx'', ''py'', ''java'', ''cpp'', ''c'', ''cs'', ''php'', ''rb'',
      ''go'', ''rs'', ''kt'', ''swift'']"

definition isTestableFile :: "string \<Rightarrow> bool" where
  "isTestableFile filename = (or_empty (ext_of filename) \<in> set testableExtensions)"

section \<open>app/page.tsx: the tree builder\<close>

text \<open>
  What the host answers while a tree is built. An entry of a listing carries its
  \<^verbatim>\<open>name\<close>, \<^verbatim>\<open>path\<close> and \<^verbatim>\<open>type\<close>; for an entry the builder descends into, the fourth
  component is the outcome of the \<^verbatim>\<open>try\<close> block's listing request for its path:
  \<open>Some\<close> of the entries listed, \<open>None\<close> when the request throws. Each path is listed at
  most once in a build, so the answers form this tree.
\<close>

datatype GitHubFile =
  GitHubFile (gh_name: string) (gh_path: string) (gh_type: string)
    (gh_listing: "GitHubFile list option")

text \<open>Interface \<^verbatim>\<open>FileItem\<close>: \<^verbatim>\<open>name\<close>, \<^verbatim>\<open>path\<close>, \<^verbatim>\<open>type\<close>, optional \<^verbatim>\<open>language\<close>,
  optional \<^verbatim>\<open>children\<close>.\<close>

datatype FileItem =
  FileItem (fi_name: string) (fi_path: string) (fi_type: string)
    (fi_language: "string option") (fi_children: "FileItem list option")

text \<open>\<^verbatim>\<open>buildFileTree\<close>: the loop over \<^verbatim>\<open>items\<close>, pushing onto \<^verbatim>\<open>fileTree\<close> in order.\<close>

fun buildFileTree :: "GitHubFile list \<Rightarrow> FileItem list" where
  "buildFileTree [] = []"
| "buildFileTree (GitHubFile name path type listing # items) =
     (if type = ''dir'' then
        (case listing of
           Some children \<Rightarrow>
             FileItem name path ''directory'' None (Some (buildFileTree children))
         | None \<Rightarrow> FileItem name path ''directory'' None (Some []))
        # buildFileTree items
      else if type = ''file'' \<and> isTestableFile name then
        FileItem name path ''file'' (Some (getFileLanguage name)) None # buildFileTree items
      else buildFileTree items)"

text \<open>The file entries the host listed during a build, in the order of the traversal.\<close>

fun listedFiles :: "GitHubFile list \<Rightarrow> GitHubFile list" where
  "listedFiles [] = []"
| "listedFiles (GitHubFile name path type listing # items) =
     (if type = ''dir'' then
        (case listing of Some children \<Rightarrow> listedFiles children | None \<Rightarrow> [])
        @ listedFiles items
      else if type = ''file'' then GitHubFile name path type listing # listedFiles items
      else listedFiles items)"

text \<open>components/file-browser.tsx, \<^verbatim>\<open>extractFiles\<close>: the file nodes of a catalog.\<close>

fun extractFiles :: "FileItem list \<Rightarrow> FileItem list" where
  "extractFiles [] = []"
| "extractFiles (FileItem name path type language children # items) =
     (if type = ''file'' then FileItem name path type language children # extractFiles items
      else (case children of
              Some cs \<Rightarrow> extractFiles cs @ extractFiles items
            | None \<Rightarrow> extractFiles items))"

text \<open>
  The scenario of an inaccessible folder, at any depth: the answers of the host with the
  listing of the directory at path \<open>p\<close> failing, and a catalog with the children of the
  directory node at path \<open>p\<close> emptied.
\<close>

fun withFailedListing :: "string \<Rightarrow> GitHubFile list \<Rightarrow> GitHubFile list" where
  "withFailedListing p [] = []"
| "withFailedListing p (GitHubFile name path type listing # items) =
     (if type = ''dir'' \<and> path = p then GitHubFile name path type None
      else GitHubFile name path type
             (case listing of
                Some children \<Rightarrow> Some (withFailedListing p children)
              | None \<Rightarrow> None))
     # withFailedListing p items"

fun withEmptyChildren :: "string \<Rightarrow> FileItem list \<Rightarrow> FileItem list" where
  "withEmptyChildren p [] = []"
| "withEmptyChildren p (FileItem name path type language children # nodes) =
     (if type = ''directory'' \<and> path = p then FileItem name path type language (Some [])
      else FileItem name path type language
             (case children of
                Some cs \<Rightarrow> Some (withEmptyChildren p cs)
              | None \<Rightarrow> None))
     # withEmptyChildren p nodes"

section \<open>lib/ai-service.ts: summaries, generated code and the deterministic generator\<close>

text \<open>Interface \<^verbatim>\<open>TestCaseSummary\<close>; field \<open>f\<close> of the source is \<open>ts_f\<close> here. The two
  string unions are kept as the strings the code compares.\<close>

record TestCaseSummary =
  ts_id :: string
  ts_title :: string
  ts_description :: string
  ts_testType :: string
  ts_priority :: string
  ts_estimatedComplexity :: int
  ts_functionName :: "string option"
  ts_filePath :: string

text \<open>Interface \<^verbatim>\<open>GeneratedTestCode\<close>; field \<open>f\<close> of the source is \<open>gt_f\<close> here.\<close>

record GeneratedTestCode =
  gt_id :: string
  gt_summaryId :: string
  gt_code :: string
  gt_framework :: string
  gt_language :: string

text \<open>The single quote, and a text between single quotes.\<close>

definition sq :: string where
  "sq = [CHR 0x27]"

definition quoted :: "string \<Rightarrow> string" where
  "quoted s = sq @ s @ sq"

text \<open>\<^verbatim>\<open>p.replace(/\.(ts|tsx|js|jsx)$/, "")\<close>: one of the four endings, at the end of the
  text, is removed.\<close>

definition stripSourceExt :: "string \<Rightarrow> string" where
  "stripSourceExt p =
     (if endsWith p ''.ts'' then take (length p - 3) p
      else if endsWith p ''.tsx'' then take (length p - 4) p
      else if endsWith p ''.js'' then take (length p - 3) p
      else if endsWith p ''.jsx'' then take (length p - 4) p
      else p)"

text \<open>\<^verbatim>\<open>summary.filePath.endsWith(".ts") || summary.filePath.endsWith(".tsx")\<close>.\<close>

definition isTypeScript :: "string \<Rightarrow> bool" where
  "isTypeScript filePath = (endsWith filePath ''.ts'' \<or> endsWith filePath ''.tsx'')"

definition languageOf :: "string \<Rightarrow> string" where
  "languageOf filePath = (if isTypeScript filePath then ''typescript'' else ''javascript'')"

text \<open>\<^verbatim>\<open>MockAIService.generateUnitTestCode\<close>; the third parameter only names a local
  that the template does not use.\<close>

definition generateUnitTestCode :: "string \<Rightarrow> string \<Rightarrow> bool \<Rightarrow> string" where
  "generateUnitTestCode functionName filePath isTs =
     (let importPath = stripSourceExt filePath in
      ''import { '' @ functionName @ '' } from '' @ quoted importPath @ '';\<newline>''
      @ ''\<newline>''
      @ ''describe('' @ quoted functionName @ '', () => {\<newline>''
      @ ''  test('should handle valid input correctly', () => {\<newline>''
      @ ''    // Arrange\<newline>''
      @ ''    const input = /* valid input */;\<newline>''
      @ ''    const expected = /* expected output */;\<newline>''
      @ ''    \<newline>''
      @ ''    // Act\<newline>''
      @ ''    const result = '' @ functionName @ ''(input);\<newline>''
      @ ''    \<newline>''
      @ ''    // Assert\<newline>''
      @ ''    expect(result).toEqual(expected);\<newline>''
      @ ''  });\<newline>''
      @ ''  \<newline>''
      @ ''  test('should handle edge cases', () => {\<newline>''
      @ ''    // Test null/undefined inputs\<newline>''
      @ ''    expect(() => '' @ functionName @ ''(null)).not.toThrow();\<newline>''
      @ ''    expect(() => '' @ functionName @ ''(undefined)).not.toThrow();\<newline>''
      @ ''  });\<newline>''
      @ ''  \<newline>''
      @ ''  test('should handle invalid input', () => {\<newline>''
      @ ''    // Test with invalid input\<newline>''
      @ ''    const invalidInput = /* invalid input */;\<newline>''
      @ ''    expect(() => '' @ functionName @ ''(invalidInput)).toThrow();\<newline>''
      @ ''  });\<newline>''
      @ ''});'')"

text \<open>\<^verbatim>\<open>filePath.split("/").pop()?.replace(/\.(ts|tsx|js|jsx)$/, "") || "module"\<close>.\<close>

definition moduleNameOf :: "string \<Rightarrow> string" where
  "moduleNameOf filePath =
     (case pop (split CHR ''/'' filePath) of
        None \<Rightarrow> ''module''
      | Some b \<Rightarrow> if stripSourceExt b = [] then ''module'' else stripSourceExt b)"

definition generateIntegrationTestCode :: "string \<Rightarrow> bool \<Rightarrow> string" where
  "generateIntegrationTestCode filePath isTs =
     (let moduleName = moduleNameOf filePath; importPath = stripSourceExt filePath in
      ''import * as '' @ moduleName @ '' from '' @ quoted importPath @ '';\<newline>''
      @ ''\<newline>''
      @ ''describe('' @ sq @ moduleName @ '' integration tests', () => {\<newline>''
      @ ''  test('should work with multiple functions together', () => {\<newline>''
      @ ''    // Test the interaction between multiple functions\<newline>''
      @ ''    // This is a placeholder - customize based on actual module structure\<newline>''
      @ ''    expect(true).toBe(true);\<newline>''
      @ ''  });\<newline>''
      @ ''  \<newline>''
      @ ''  test('should handle complex workflows', () => {\<newline>''
      @ ''    // Test end-to-end workflows within the module\<newline>''
      @ ''    expect(true).toBe(true);\<newline>''
      @ ''  });\<newline>''
      @ ''});'')"

definition generateEdgeCaseTestCode :: "string \<Rightarrow> bool \<Rightarrow> string" where
  "generateEdgeCaseTestCode filePath isTs =
     (let moduleName = moduleNameOf filePath; importPath = stripSourceExt filePath in
      ''import * as '' @ moduleName @ '' from '' @ quoted importPath @ '';\<newline>''
      @ ''\<newline>''
      @ ''describe('' @ sq @ moduleName @ '' edge cases', () => {\<newline>''
      @ ''  test('should handle boundary conditions', () => {\<newline>''
      @ ''    // Test with boundary values (empty arrays, max/min numbers, etc.)\<newline>''
      @ ''    expect(true).toBe(true);\<newline>''
      @ ''  });\<newline>''
      @ ''  \<newline>''
      @ ''  test('should handle error conditions gracefully', () => {\<newline>''
      @ ''    // Test error scenarios and recovery\<newline>''
      @ ''    expect(true).toBe(true);\<newline>''
      @ ''  });\<newline>''
      @ ''  \<newline>''
      @ ''  test('should handle concurrent operations', () => {\<newline>''
      @ ''    // Test race conditions and async edge cases\<newline>''
      @ ''    expect(true).toBe(true);\<newline>''
      @ ''  });\<newline>''
      @ ''});'')"

text \<open>\<^verbatim>\<open>MockAIService.generateTestCode\<close>. An absent or empty \<^verbatim>\<open>functionName\<close> is falsy.\<close>

definition MockAIService_generateTestCode :: "TestCaseSummary \<Rightarrow> GeneratedTestCode" where
  "MockAIService_generateTestCode summary =
     (let isTs = isTypeScript (ts_filePath summary);
          testCode =
            (case ts_functionName summary of
               Some functionName \<Rightarrow>
                 if ts_testType summary = ''unit'' \<and> functionName \<noteq> []
                 then generateUnitTestCode functionName (ts_filePath summary) isTs
                 else if ts_testType summary = ''integration''
                 then generateIntegrationTestCode (ts_filePath summary) isTs
                 else generateEdgeCaseTestCode (ts_filePath summary) isTs
             | None \<Rightarrow>
                 if ts_testType summary = ''integration''
                 then generateIntegrationTestCode (ts_filePath summary) isTs
                 else generateEdgeCaseTestCode (ts_filePath summary) isTs)
      in \<lparr>gt_id = ''test-'' @ ts_id summary, gt_summaryId = ts_id summary, gt_code = testCode,
          gt_framework = ''jest'', gt_language = languageOf (ts_filePath summary)\<rparr>)"

section \<open>lib/ai-actions.ts: the server actions\<close>

text \<open>\<^verbatim>\<open>createFallbackTestCode\<close>.\<close>

definition createFallbackTestCode :: "TestCaseSummary \<Rightarrow> GeneratedTestCode" where
  "createFallbackTestCode summary =
     (let importPath = stripSourceExt (ts_filePath summary);
          fn = (case ts_functionName summary of
                  None \<Rightarrow> ''testFunction''
                | Some f \<Rightarrow> if f = [] then ''testFunction'' else f);
          basicTestCode =
      ''import { '' @ fn @ '' } from '' @ quoted importPath @ '';\<newline>''
      @ ''\<newline>''
      @ ''describe('' @ quoted (ts_title summary) @ '', () => {\<newline>''
      @ ''  test('should work correctly', () => {\<newline>''
      @ ''    // Basic test implementation\<newline>''
      @ ''    expect(true).toBe(true);\<newline>''
      @ ''  });\<newline>''
      @ ''});''
      in \<lparr>gt_id = ''test-'' @ ts_id summary, gt_summaryId = ts_id summary,
          gt_code = basicTestCode, gt_framework = ''jest'',
          gt_language = languageOf (ts_filePath summary)\<rparr>)"

subsection \<open>The example of a unit-type summary\<close>

text \<open>The text \<^verbatim>\<open>generateUnitTestCode("foo", "src/foo.ts", true)\<close> is expected to be: the
  template with \<^verbatim>\<open>foo\<close> and \<^verbatim>\<open>src/foo\<close> filled in.\<close>

definition unitTestCode_foo :: string where
  "unitTestCode_foo =
      ''import { foo } from 'src/foo';\<newline>''
      @ ''\<newline>''
      @ ''describe('foo', () => {\<newline>''
      @ ''  test('should handle valid input correctly', () => {\<newline>''
      @ ''    // Arrange\<newline>''
      @ ''    const input = /* valid input */;\<newline>''
      @ ''    const expected = /* expected output */;\<newline>''
      @ ''    \<newline>''
      @ ''    // Act\<newline>''
      @ ''    const result = foo(input);\<newline>''
      @ ''    \<newline>''
      @ ''    // Assert\<newline>''
      @ ''    expect(result).toEqual(expected);\<newline>''
      @ ''  });\<newline>''
      @ ''  \<newline>''
      @ ''  test('should handle edge cases', () => {\<newline>''
      @ ''    // Test null/undefined inputs\<newline>''
      @ ''    expect(() => foo(null)).not.toThrow();\<newline>''
      @ ''    expect(() => foo(undefined)).not.toThrow();\<newline>''
      @ ''  });\<newline>''
      @ ''  \<newline>''
      @ ''  test('should handle invalid input', () => {\<newline>''
      @ ''    // Test with invalid input\<newline>''
      @ ''    const invalidInput = /* invalid input */;\<newline>''
      @ ''    expect(() => foo(invalidInput)).toThrow();\<newline>''
      @ ''  });\<newline>''
      @ ''});''"

text \<open>A unit-type summary for \<^verbatim>\<open>foo\<close> in \<^verbatim>\<open>src/foo.ts\<close>.\<close>

definition fooSummary :: TestCaseSummary where
  "fooSummary =
     \<lparr>ts_id = ''gemini-1762160000000-0'', ts_title = ''foo returns its input'',
      ts_description = ''Checks foo on a valid input'', ts_testType = ''unit'',
      ts_priority = ''high'', ts_estimatedComplexity = 2, ts_functionName = Some ''foo'',
      ts_filePath = ''src/foo.ts''\<rparr>"

subsection \<open>Requests, replies and the two actions\<close>

text \<open>
  The outcome of one request to the AI endpoint as the \<^verbatim>\<open>try\<close> block sees it: the text
  of the first candidate, or a throw (the fetch rejects, the status is not ok, the answer
  has no candidate content, or the text is not a string).
\<close>

datatype ai_outcome = Throws | Text string

datatype action_error = MissingApiKey

text \<open>\<^verbatim>\<open>process.env.GEMINI_API_KEY\<close> is truthy: defined and not empty.\<close>

definition hasKey :: "string option \<Rightarrow> bool" where
  "hasKey apiKey = (case apiKey of None \<Rightarrow> False | Some k \<Rightarrow> k \<noteq> [])"

text \<open>
  \<^verbatim>\<open>s.replace(re, "")\<close> for a global pattern that never matches the empty text: \<open>m\<close>
  gives the length of the match that starts the text, 0 for none. A match is dropped and
  the scan goes on behind it.
\<close>

function removeMatches :: "(string \<Rightarrow> nat) \<Rightarrow> string \<Rightarrow> string" where
  "removeMatches m [] = []"
| "removeMatches m (c # cs) =
     (if m (c # cs) = 0 then c # removeMatches m cs
      else removeMatches m (drop (m (c # cs)) (c # cs)))"
  by pat_completeness auto
termination
  by (relation "measure (\<lambda>(m, s). length s)") auto

text \<open>An optional line feed at the start: the length \<^verbatim>\<open>\n?\<close> takes.\<close>

definition optNewline :: "string \<Rightarrow> nat" where
  "optNewline s = (if startsWith s ''\<newline>'' then 1 else 0)"

text \<open>The patterns \<^verbatim>\<open>/```json\n?/g\<close>, \<^verbatim>\<open>/```\n?/g\<close> and \<^verbatim>\<open>/```[\w]*\n?/g\<close>.\<close>

definition fenceJson :: "string \<Rightarrow> nat" where
  "fenceJson s = (if startsWith s ''```json'' then 7 + optNewline (drop 7 s) else 0)"

definition fence :: "string \<Rightarrow> nat" where
  "fence s = (if startsWith s ''```'' then 3 + optNewline (drop 3 s) else 0)"

definition fenceWord :: "string \<Rightarrow> nat" where
  "fenceWord s =
     (if startsWith s ''```''
      then (let w = length (takeWhile isWord (drop 3 s))
            in 3 + w + optNewline (drop (3 + w) s))
      else 0)"

text \<open>\<^verbatim>\<open>s.match(/\[[\s\S]*\]/)\<close>: from the first opening bracket to the last closing
  bracket behind it; no match without such a pair.\<close>

definition matchArray :: "string \<Rightarrow> string option" where
  "matchArray s =
     (let r = dropWhile (\<lambda>c. c \<noteq> CHR ''['') s;
          body = rev (dropWhile (\<lambda>c. c \<noteq> CHR '']'') (rev r))
      in if body = [] then None else Some body)"

text \<open>
  An element of the parsed array, read at the properties the code reads, each at the type
  the interface gives it; \<open>None\<close> is an absent property. \<open>NullItem\<close> is an element that is
  \<^verbatim>\<open>null\<close>, where reading a property throws.
\<close>

datatype raw_item =
    NullItem
  | Item (it_title: "string option") (it_description: "string option")
      (it_testType: "string option") (it_priority: "string option")
      (it_estimatedComplexity: "int option") (it_functionName: "string option")

text \<open>\<^verbatim>\<open>x || d\<close> on an optional string and an optional number.\<close>

definition orString :: "string option \<Rightarrow> string \<Rightarrow> string" where
  "orString x d = (case x of None \<Rightarrow> d | Some s \<Rightarrow> if s = [] then d else s)"

definition orNumber :: "int option \<Rightarrow> int \<Rightarrow> int" where
  "orNumber x d = (case x of None \<Rightarrow> d | Some n \<Rightarrow> if n = 0 then d else n)"

text \<open>\<^verbatim>\<open>{ path, content }\<close>.\<close>

record FileContent =
  fc_path :: string
  fc_content :: string

text \<open>\<^verbatim>\<open>file.path.split("/").pop()\<close> inside a template literal.\<close>

definition basename :: "string \<Rightarrow> string" where
  "basename path = (case pop (split CHR ''/'' path) of None \<Rightarrow> ''undefined'' | Some b \<Rightarrow> b)"

text \<open>The id templates \<^verbatim>\<open>`fallback-${Date.now()}`\<close> and
  \<^verbatim>\<open>`gemini-${Date.now()}-${index}`\<close>; \<open>ms\<close> is what \<^verbatim>\<open>Date.now()\<close> returns.\<close>

definition fallbackId :: "nat \<Rightarrow> string" where
  "fallbackId ms = ''fallback-'' @ digits ms"

definition geminiId :: "nat \<Rightarrow> nat \<Rightarrow> string" where
  "geminiId ms index = ''gemini-'' @ digits ms @ ''-'' @ digits index"

text \<open>\<^verbatim>\<open>createFallbackSummary\<close>; \<open>ms\<close> is what \<^verbatim>\<open>Date.now()\<close> returns in it.\<close>

definition createFallbackSummary :: "nat \<Rightarrow> FileContent \<Rightarrow> TestCaseSummary" where
  "createFallbackSummary ms file =
     \<lparr>ts_id = fallbackId ms,
      ts_title = ''Basic tests for '' @ basename (fc_path file),
      ts_description = ''Basic test coverage for this file'',
      ts_testType = ''unit'', ts_priority = ''medium'', ts_estimatedComplexity = 3,
      ts_functionName = None, ts_filePath = fc_path file\<rparr>"

text \<open>
  The clock: \<open>now t\<close> is what the call of \<^verbatim>\<open>Date.now()\<close> returns after \<open>t\<close> earlier calls.
  The callback of \<^verbatim>\<open>parsed.map\<close> reads the clock once per element, before it reads the
  element; the result is \<open>None\<close> when an element makes it throw, paired with the number of
  clock readings so far.
\<close>

fun mapItems ::
  "(nat \<Rightarrow> nat) \<Rightarrow> string \<Rightarrow> nat \<Rightarrow> nat \<Rightarrow> raw_item list \<Rightarrow> TestCaseSummary list option \<times> nat" where
  "mapItems now filePath index t [] = (Some [], t)"
| "mapItems now filePath index t (NullItem # items) = (None, Suc t)"
| "mapItems now filePath index t (Item title description testType priority complexity fn # items) =
     (case mapItems now filePath (Suc index) (Suc t) items of
        (None, t') \<Rightarrow> (None, t')
      | (Some rest, t') \<Rightarrow>
          (Some (\<lparr>ts_id = geminiId (now t) index,
                  ts_title = orString title ''Generated Test'',
                  ts_description = orString description ''AI generated test case'',
                  ts_testType = orString testType ''unit'',
                  ts_priority = orString priority ''medium'',
                  ts_estimatedComplexity = orNumber complexity 3,
                  ts_functionName = fn, ts_filePath = filePath\<rparr> # rest), t'))"

text \<open>The array a reply yields: trimmed, fences removed, the bracketed part parsed.
  \<open>JSON_parse\<close> is the runtime's parser on texts that start with a bracket: \<open>None\<close> when
  it throws.\<close>

definition parsedArray :: "(string \<Rightarrow> raw_item list option) \<Rightarrow> string \<Rightarrow> raw_item list option" where
  "parsedArray JSON_parse response =
     (case matchArray (removeMatches fence (removeMatches fenceJson (trim response))) of
        None \<Rightarrow> None
      | Some text \<Rightarrow> JSON_parse text)"

text \<open>\<^verbatim>\<open>parseAIResponse\<close>: the summaries, and the number of clock readings afterwards.\<close>

definition parseAIResponse ::
  "(string \<Rightarrow> raw_item list option) \<Rightarrow> (nat \<Rightarrow> nat) \<Rightarrow> nat \<Rightarrow> string \<Rightarrow> string
     \<Rightarrow> TestCaseSummary list \<times> nat" where
  "parseAIResponse JSON_parse now t response filePath =
     (case parsedArray JSON_parse response of
        None \<Rightarrow>
          ([createFallbackSummary (now t) \<lparr>fc_path = filePath, fc_content = []\<rparr>], Suc t)
      | Some parsed \<Rightarrow>
          (case mapItems now filePath 0 t parsed of
             (Some summaries, t') \<Rightarrow> (summaries, t')
           | (None, t') \<Rightarrow>
               ([createFallbackSummary (now t') \<lparr>fc_path = filePath, fc_content = []\<rparr>],
                Suc t')))"

text \<open>The loop of \<^verbatim>\<open>generateTestSummariesAction\<close>: \<open>ai k\<close> is the outcome of the request for
  the \<open>k\<close>-th file.\<close>

fun summariesLoop ::
  "(string \<Rightarrow> raw_item list option) \<Rightarrow> (nat \<Rightarrow> nat) \<Rightarrow> (nat \<Rightarrow> ai_outcome) \<Rightarrow> nat \<Rightarrow> nat
     \<Rightarrow> FileContent list \<Rightarrow> TestCaseSummary list" where
  "summariesLoop JSON_parse now ai k t [] = []"
| "summariesLoop JSON_parse now ai k t (file # files) =
     (case ai k of
        Text aiResponse \<Rightarrow>
          (case parseAIResponse JSON_parse now t aiResponse (fc_path file) of
             (aiSummaries, t') \<Rightarrow>
               aiSummaries @ summariesLoop JSON_parse now ai (Suc k) t' files)
      | Throws \<Rightarrow>
          createFallbackSummary (now t) file
            # summariesLoop JSON_parse now ai (Suc k) (Suc t) files)"


text \<open>\<^verbatim>\<open>generateTestCodeAction\<close>, on the outcome of its one request.\<close>

definition generateTestCodeAction ::
  "string option \<Rightarrow> ai_outcome \<Rightarrow> TestCaseSummary \<Rightarrow> action_error + GeneratedTestCode" where
  "generateTestCodeAction apiKey outcome summary =
     (if \<not> hasKey apiKey then Inl MissingApiKey
      else (case outcome of
              Text aiResponse \<Rightarrow>
                Inr \<lparr>gt_id = ''test-'' @ ts_id summary, gt_summaryId = ts_id summary,
                     gt_code = trim (removeMatches fenceWord aiResponse), gt_framework = ''jest'',
                     gt_language = languageOf (ts_filePath summary)\<rparr>
            | Throws \<Rightarrow> Inr (createFallbackTestCode summary)))"

text \<open>
  \<^verbatim>\<open>AIService.generateTestCode\<close> of lib/ai-service.ts in its two versions: the one that
  asks the AI endpoint (the missing key is thrown inside the \<^verbatim>\<open>try\<close>; \<open>apiKey\<close> is
  \<^verbatim>\<open>GEMINI_API_KEY || NEXT_PUBLIC_GEMINI_API_KEY\<close> there), and the one that hands over to
  the deterministic generator at once.
\<close>

definition AIService_generateTestCode ::
  "string option \<Rightarrow> ai_outcome \<Rightarrow> TestCaseSummary \<Rightarrow> GeneratedTestCode" where
  "AIService_generateTestCode apiKey outcome summary =
     (if \<not> hasKey apiKey then MockAIService_generateTestCode summary
      else (case outcome of
              Text response \<Rightarrow>
                \<lparr>gt_id = ''test-'' @ ts_id summary, gt_summaryId = ts_id summary,
                 gt_code = trim (removeMatches fenceWord response), gt_framework = ''jest'',
                 gt_language = languageOf (ts_filePath summary)\<rparr>
            | Throws \<Rightarrow> MockAIService_generateTestCode summary))"

definition AIService_generateTestCode_mock :: "TestCaseSummary \<Rightarrow> GeneratedTestCode" where
  "AIService_generateTestCode_mock summary = MockAIService_generateTestCode summary"




section \<open>components/test-generation.tsx: code generation for the selection\<close>

text \<open>\<^verbatim>\<open>testSummaries.filter((s) => selectedSummaries.has(s.id))\<close>.\<close>

definition selectedSummaryList :: "TestCaseSummary list \<Rightarrow> string set \<Rightarrow> TestCaseSummary list" where
  "selectedSummaryList testSummaries selectedSummaries =
     filter (\<lambda>s. ts_id s \<in> selectedSummaries) testSummaries"

text \<open>
  The loop of \<^verbatim>\<open>generateTestCode\<close>: \<open>service k\<close> is the call of the service in the \<open>k\<close>-th
  round, \<open>Inl\<close> when it throws; a throw is logged and the round adds nothing.
\<close>

fun generatedCodes ::
  "(nat \<Rightarrow> TestCaseSummary \<Rightarrow> 'e + GeneratedTestCode) \<Rightarrow> nat \<Rightarrow> TestCaseSummary list
     \<Rightarrow> GeneratedTestCode list" where
  "generatedCodes service k [] = []"
| "generatedCodes service k (summary # rest) =
     (case service k summary of
        Inr testCode \<Rightarrow> testCode # generatedCodes service (Suc k) rest
      | Inl e \<Rightarrow> generatedCodes service (Suc k) rest)"

section \<open>app/page.tsx and components/test-generation.tsx: the workflow\<close>

text \<open>Type \<^verbatim>\<open>AppState\<close>: landing, auth, repo-select, file-browser, test-generation,
  test-management, pr-creation.\<close>

datatype AppState =
  Landing | Auth | RepoSelect | FileBrowser | TestGeneration | TestManagement | PrCreation

text \<open>
  The state of \<^verbatim>\<open>HomePage\<close> (the \<^verbatim>\<open>useState\<close> cells of the page; \<^verbatim>\<open>githubApi\<close> is the
  client built from the token, or \<^verbatim>\<open>null\<close>), followed by the cells of the \<^verbatim>\<open>TestGeneration\<close>
  component that the claims read. The component is rendered only while the state is
  test-generation; mounted anew, its cells hold their initial values.
\<close>

record HomePage =
  appState :: AppState
  githubApi :: "string option"
  selectedRepo :: "GitHubRepo option"
  files :: "FileItem list"
  selectedFiles :: "string list"
  fileContents :: "FileContent list"
  prTestCases :: "GeneratedTestCode list"
  prTestSummaries :: "TestCaseSummary list"
  testSummaries :: "TestCaseSummary list"
  selectedSummaries :: "string set"
  generatedTests :: "GeneratedTestCode list"

definition initialPage :: HomePage where
  "initialPage =
     \<lparr>appState = Landing, githubApi = None, selectedRepo = None, files = [],
      selectedFiles = [], fileContents = [], prTestCases = [], prTestSummaries = [],
      testSummaries = [], selectedSummaries = {}, generatedTests = []\<rparr>"

definition handleAuthentication :: "string \<Rightarrow> HomePage \<Rightarrow> HomePage" where
  "handleAuthentication token s = s\<lparr>githubApi := Some token, appState := RepoSelect\<rparr>"

text \<open>\<^verbatim>\<open>handleRepositorySelect\<close>, taken as one step: \<open>listing\<close> is the host's answer for the
  root of the repository, \<open>None\<close> when that request (or the missing client) throws.\<close>

definition handleRepositorySelect :: "GitHubRepo \<Rightarrow> GitHubFile list option \<Rightarrow> HomePage \<Rightarrow> HomePage" where
  "handleRepositorySelect repo listing s =
     (case (githubApi s, listing) of
        (Some api, Some repoFiles) \<Rightarrow>
          s\<lparr>selectedRepo := Some repo, files := buildFileTree repoFiles,
            appState := FileBrowser\<rparr>
      | _ \<Rightarrow> s\<lparr>selectedRepo := Some repo\<rparr>)"

definition handleFileSelect :: "string \<Rightarrow> bool \<Rightarrow> HomePage \<Rightarrow> HomePage" where
  "handleFileSelect filePath selected s =
     (if selected then s\<lparr>selectedFiles := selectedFiles s @ [filePath]\<rparr>
      else s\<lparr>selectedFiles := filter (\<lambda>path. path \<noteq> filePath) (selectedFiles s)\<rparr>)"

text \<open>\<^verbatim>\<open>handleGenerateTests\<close>, taken as one step: \<open>contents\<close> are the files whose content
  could be loaded.\<close>

definition handleGenerateTests :: "FileContent list \<Rightarrow> HomePage \<Rightarrow> HomePage" where
  "handleGenerateTests contents s =
     (if githubApi s = None \<or> selectedRepo s = None \<or> selectedFiles s = [] then s
      else s\<lparr>fileContents := contents, appState := TestGeneration\<rparr>)"

definition handleBack :: "HomePage \<Rightarrow> HomePage" where
  "handleBack s =
     (case appState s of
        RepoSelect \<Rightarrow> s\<lparr>appState := Landing, githubApi := None\<rparr>
      | FileBrowser \<Rightarrow>
          s\<lparr>appState := RepoSelect, selectedRepo := None, files := [], selectedFiles := []\<rparr>
      | TestGeneration \<Rightarrow> s\<lparr>appState := FileBrowser\<rparr>
      | TestManagement \<Rightarrow> s\<lparr>appState := TestGeneration\<rparr>
      | PrCreation \<Rightarrow> s\<lparr>appState := TestGeneration\<rparr>
      | _ \<Rightarrow> s)"

definition handleManageTests :: "HomePage \<Rightarrow> HomePage" where
  "handleManageTests s = s\<lparr>appState := TestManagement\<rparr>"

definition handleCreatePR ::
  "GeneratedTestCode list \<Rightarrow> TestCaseSummary list \<Rightarrow> HomePage \<Rightarrow> HomePage" where
  "handleCreatePR testCases summaries s =
     s\<lparr>prTestCases := testCases, prTestSummaries := summaries, appState := PrCreation\<rparr>"

text \<open>The component: \<^verbatim>\<open>generateSummaries\<close> on the summaries the service returned (the
  high-priority ones are selected), the selection controls, and \<^verbatim>\<open>generateTestCode\<close>.\<close>

definition generateSummaries :: "TestCaseSummary list \<Rightarrow> HomePage \<Rightarrow> HomePage" where
  "generateSummaries summaries s =
     s\<lparr>testSummaries := summaries,
       selectedSummaries := set (map ts_id (filter (\<lambda>x. ts_priority x = ''high'') summaries))\<rparr>"

definition toggleSummarySelection :: "string \<Rightarrow> HomePage \<Rightarrow> HomePage" where
  "toggleSummarySelection summaryId s =
     (if summaryId \<in> selectedSummaries s
      then s\<lparr>selectedSummaries := selectedSummaries s - {summaryId}\<rparr>
      else s\<lparr>selectedSummaries := insert summaryId (selectedSummaries s)\<rparr>)"

definition selectAllSummaries :: "HomePage \<Rightarrow> HomePage" where
  "selectAllSummaries s = s\<lparr>selectedSummaries := set (map ts_id (testSummaries s))\<rparr>"

definition clearAllSummaries :: "HomePage \<Rightarrow> HomePage" where
  "clearAllSummaries s = s\<lparr>selectedSummaries := {}\<rparr>"

definition generateTestCode ::
  "(nat \<Rightarrow> TestCaseSummary \<Rightarrow> action_error + GeneratedTestCode) \<Rightarrow> HomePage \<Rightarrow> HomePage" where
  "generateTestCode service s =
     (if selectedSummaries s = {} then s
      else s\<lparr>generatedTests :=
               generatedCodes service 0
                 (selectedSummaryList (testSummaries s) (selectedSummaries s))\<rparr>)"

text \<open>What can happen to the page: a click on a control, or the completion of a handler
  with what the outside returned.\<close>

datatype event =
    ConnectGitHub
  | Authenticated string
  | RepositorySelect GitHubRepo "GitHubFile list option"
  | FileSelect string bool
  | GenerateTests "FileContent list"
  | Back
  | GenerateSummaries "TestCaseSummary list"
  | ToggleSummary string
  | SelectAll
  | ClearAll
  | GenerateTestCode "nat \<Rightarrow> TestCaseSummary \<Rightarrow> action_error + GeneratedTestCode"
  | ManageTests
  | CreatePR

text \<open>
  A control can be used only where it is rendered. The back arrow of the header is
  rendered outside the landing page; the Create PR and Manage Tests buttons are rendered
  by the component, only while \<^verbatim>\<open>generatedTests.length > 0\<close>.
\<close>

fun rendered :: "event \<Rightarrow> HomePage \<Rightarrow> bool" where
  "rendered ConnectGitHub s = (appState s = Landing)"
| "rendered (Authenticated token) s = (appState s = Auth)"
| "rendered (RepositorySelect repo listing) s = (appState s = RepoSelect \<and> githubApi s \<noteq> None)"
| "rendered (FileSelect filePath selected) s = (appState s = FileBrowser)"
| "rendered (GenerateTests contents) s = (appState s = FileBrowser)"
| "rendered Back s = (appState s \<noteq> Landing)"
| "rendered (GenerateSummaries summaries) s = (appState s = TestGeneration)"
| "rendered (ToggleSummary summaryId) s = (appState s = TestGeneration)"
| "rendered SelectAll s = (appState s = TestGeneration)"
| "rendered ClearAll s = (appState s = TestGeneration)"
| "rendered (GenerateTestCode service) s = (appState s = TestGeneration)"
| "rendered ManageTests s = (appState s = TestGeneration \<and> generatedTests s \<noteq> [])"
| "rendered CreatePR s = (appState s = TestGeneration \<and> generatedTests s \<noteq> [])"

fun handler :: "event \<Rightarrow> HomePage \<Rightarrow> HomePage" where
  "handler ConnectGitHub s = s\<lparr>appState := Auth\<rparr>"
| "handler (Authenticated token) s = handleAuthentication token s"
| "handler (RepositorySelect repo listing) s = handleRepositorySelect repo listing s"
| "handler (FileSelect filePath selected) s = handleFileSelect filePath selected s"
| "handler (GenerateTests contents) s = handleGenerateTests contents s"
| "handler Back s = handleBack s"
| "handler (GenerateSummaries summaries) s = generateSummaries summaries s"
| "handler (ToggleSummary summaryId) s = toggleSummarySelection summaryId s"
| "handler SelectAll s = selectAllSummaries s"
| "handler ClearAll s = clearAllSummaries s"
| "handler (GenerateTestCode service) s = generateTestCode service s"
| "handler ManageTests s = handleManageTests s"
| "handler CreatePR s = handleCreatePR (generatedTests s) (testSummaries s) s"

text \<open>The component's cells after a step: initial whenever the page changed its state
  (the component was unmounted, or is mounted anew).\<close>

definition remount :: "AppState \<Rightarrow> HomePage \<Rightarrow> HomePage" where
  "remount before s =
     (if appState s = before then s
      else s\<lparr>testSummaries := [], selectedSummaries := {}, generatedTests := []\<rparr>)"

text \<open>One step: an event on a control that is not rendered changes nothing.\<close>

definition fire :: "event \<Rightarrow> HomePage \<Rightarrow> HomePage" where
  "fire e s = (if rendered e s then remount (appState s) (handler e s) else s)"

fun run :: "event list \<Rightarrow> HomePage \<Rightarrow> HomePage" where
  "run [] s = s"
| "run (e # es) s = run es (fire e s)"

text \<open>An example session, in two parts: from the landing page to the file browser of a
  repository with one testable file, selected; then on to test generation, summaries and
  code for the one summary.\<close>

definition exampleBrowse :: "event list" where
  "exampleBrowse =
     [ConnectGitHub, Authenticated ''token'',
      RepositorySelect
        \<lparr>repo_id = 1, repo_name = ''demo'', repo_full_name = ''octo/demo'',
         repo_description = ''a demo'', repo_language = ''TypeScript'', repo_private = False\<rparr>
        (Some [GitHubFile ''foo.ts'' ''src/foo.ts'' ''file'' None]),
      FileSelect ''src/foo.ts'' True]"

definition exampleGenerate :: "event list" where
  "exampleGenerate =
     [GenerateTests [\<lparr>fc_path = ''src/foo.ts'', fc_content = ''export const foo = 1''\<rparr>],
      GenerateSummaries [fooSummary],
      GenerateTestCode (\<lambda>k summary. Inr (MockAIService_generateTestCode summary))]"

section \<open>components/test-case-manager.tsx: the suite store\<close>

text \<open>
  Interfaces \<^verbatim>\<open>TestCase\<close> and \<^verbatim>\<open>TestSuite\<close>; field \<open>f\<close> of the source is \<open>tc_f\<close> and
  \<open>su_f\<close> here. The type parameter is the type of the date fields: in memory a date is a
  \<^verbatim>\<open>Date\<close>, taken as its time value (milliseconds since the epoch, \<^typ>\<open>int\<close>; the invalid
  date is left out, dates here come from \<^verbatim>\<open>new Date()\<close> or from a stored text); in the
  stored JSON it is the text \<^verbatim>\<open>Date.prototype.toJSON\<close> gives.
\<close>

record 'd TestCase =
  tc_id :: string
  tc_title :: string
  tc_description :: string
  tc_code :: string
  tc_testType :: string
  tc_priority :: string
  tc_status :: string
  tc_filePath :: string
  tc_functionName :: "string option"
  tc_createdAt :: 'd
  tc_updatedAt :: 'd

record 'd TestSuite =
  su_id :: string
  su_name :: string
  su_description :: string
  su_createdAt :: 'd
  su_updatedAt :: 'd
  su_tags :: "string list"
  su_testCases :: "'d TestCase list"
  su_framework :: string
  su_language :: string

text \<open>
  The manager: its \<^verbatim>\<open>testSuites\<close> cell, and the entry \<^verbatim>\<open>testgen-suites\<close> of
  \<^verbatim>\<open>localStorage\<close>, absent or the stored JSON (the value that \<^verbatim>\<open>JSON.parse\<close> reads back
  from the stored text).
\<close>

record Manager =
  testSuites :: "int TestSuite list"
  localStorage :: "string TestSuite list option"










text \<open>\<^verbatim>\<open>suite.name.replace(/\s+/g, "-")\<close>: every run of white space becomes one dash.\<close>

function dashSpaces :: "string \<Rightarrow> string" where
  "dashSpaces [] = []"
| "dashSpaces (c # cs) =
     (if isSpace c then CHR ''-'' # dashSpaces (dropWhile isSpace cs) else c # dashSpaces cs)"
  by pat_completeness auto
termination
  by (relation "measure length") (auto simp: length_dropWhile_le le_imp_less_Suc)

text \<open>What a download carries: the name of the file, the type and the content of the
  blob. The JSON text of a suite is kept as the suite it denotes.\<close>

datatype blob = PlainText string | JsonText "int TestSuite"

record download =
  dl_name :: string
  dl_type :: string
  dl_blob :: blob

text \<open>\<^verbatim>\<open>exportTestSuite\<close>: the manager afterwards, and the download it starts, if any.\<close>

definition exportTestSuite :: "int TestSuite \<Rightarrow> string \<Rightarrow> Manager \<Rightarrow> Manager \<times> download option" where
  "exportTestSuite suite format st =
     (if format = ''json'' then
        (st, Some \<lparr>dl_name = toLowerCase (dashSpaces (su_name suite)) @ ''.json'',
                   dl_type = ''application/json'', dl_blob = JsonText suite\<rparr>)
      else if format = ''jest'' then
        (st, Some \<lparr>dl_name = toLowerCase (dashSpaces (su_name suite)) @ ''.test.js'',
                   dl_type = ''text/plain'',
                   dl_blob = PlainText (join ''\<newline>\<newline>'' (map tc_code (su_testCases suite)))\<rparr>)
      else (st, None))"

text \<open>The code bundle in the words of the specification: the bodies in order, a blank
  line between two that follow each other.\<close>

fun codeBundle :: "string list \<Rightarrow> string" where
  "codeBundle [] = []"
| "codeBundle [body] = body"
| "codeBundle (body # next # bodies) = body @ ''\<newline>\<newline>'' @ codeBundle (next # bodies)"

text \<open>The day of an instant (UTC): the granularity dates are compared at.\<close>

definition dayOf :: "int \<Rightarrow> int" where
  "dayOf ms = ms div 86400000"












section \<open>Properties\<close>

subsection \<open>The repository client\<close>

text \<open>
  C10. \<^verbatim>\<open>getRepositories\<close> hands back the host's list as received: the filter's predicate
  is true of every repository, private or not, so nothing is removed and the order is the
  host's; a failed request is passed on unchanged.
\<close>

theorem getRepositories_identity:
  "getRepositories (Inr repos) = Inr repos \<and> getRepositories (Inl e) = Inl e"
  by (simp add: getRepositories_def)

theorem getRepositories_identity_witness:
  "getRepositories
     (Inr [\<lparr>repo_id = 2, repo_name = ''b'', repo_full_name = ''o/b'', repo_description = '''',
            repo_language = ''Go'', repo_private = True\<rparr>,
           \<lparr>repo_id = 1, repo_name = ''a'', repo_full_name = ''o/a'', repo_description = '''',
            repo_language = ''C'', repo_private = False\<rparr>])
   = Inr [\<lparr>repo_id = 2, repo_name = ''b'', repo_full_name = ''o/b'', repo_description = '''',
            repo_language = ''Go'', repo_private = True\<rparr>,
          \<lparr>repo_id = 1, repo_name = ''a'', repo_full_name = ''o/a'', repo_description = '''',
            repo_language = ''C'', repo_private = False\<rparr>]"
  using getRepositories_identity by blast

text \<open>
  C9. Branch creation from \<^verbatim>\<open>"main"\<close>: when the lookup of \<^verbatim>\<open>main\<close> fails, the operation
  runs once more against \<^verbatim>\<open>"master"\<close> and that second run decides the result (two lookups
  in all, the second of \<^verbatim>\<open>master\<close>; a failure of the second is final). For any other
  source branch a failed lookup is the result, after that one request, and no run looks a
  branch up twice.
\<close>

theorem createBranch_main_master_once:
  "(getBranch h owner repo ''main'' = Inl e \<longrightarrow>
      createBranch h owner repo newBranch ''main'' =
        (case getBranch h owner repo ''master'' of
           Inl e' \<Rightarrow>
             ([GetBranch owner repo ''main'', GetBranch owner repo ''master''], Inl e')
         | Inr sha \<Rightarrow>
             ([GetBranch owner repo ''main'', GetBranch owner repo ''master'',
               PostRef owner repo (''refs/heads/'' @ newBranch) sha],
              postRef h owner repo (''refs/heads/'' @ newBranch) sha))
      \<and> lookups (fst (createBranch h owner repo newBranch ''main'')) = 2)
   \<and> (fromBranch \<noteq> ''main'' \<and> getBranch h owner repo fromBranch = Inl e \<longrightarrow>
        createBranch h owner repo newBranch fromBranch =
          ([GetBranch owner repo fromBranch], Inl e))
   \<and> (fromBranch \<noteq> ''main'' \<longrightarrow>
        lookups (fst (createBranch h owner repo newBranch fromBranch)) = 1)"
proof (intro conjI impI)
  assume main: "getBranch h owner repo ''main'' = Inl e"
  have master: "createBranch h owner repo newBranch ''master'' =
        (case getBranch h owner repo ''master'' of
           Inl e' \<Rightarrow> ([GetBranch owner repo ''master''], Inl e')
         | Inr sha \<Rightarrow>
             ([GetBranch owner repo ''master'',
               PostRef owner repo (''refs/heads/'' @ newBranch) sha],
              postRef h owner repo (''refs/heads/'' @ newBranch) sha))"
    by (subst createBranch.simps) (simp split: sum.splits)
  show run: "createBranch h owner repo newBranch ''main'' =
        (case getBranch h owner repo ''master'' of
           Inl e' \<Rightarrow>
             ([GetBranch owner repo ''main'', GetBranch owner repo ''master''], Inl e')
         | Inr sha \<Rightarrow>
             ([GetBranch owner repo ''main'', GetBranch owner repo ''master'',
               PostRef owner repo (''refs/heads/'' @ newBranch) sha],
              postRef h owner repo (''refs/heads/'' @ newBranch) sha))"
    by (subst createBranch.simps) (simp add: main master split: sum.splits)
  show "lookups (fst (createBranch h owner repo newBranch ''main'')) = 2"
    unfolding run by (simp add: lookups_def split: sum.splits)
next
  assume other: "fromBranch \<noteq> ''main'' \<and> getBranch h owner repo fromBranch = Inl e"
  then show "createBranch h owner repo newBranch fromBranch =
          ([GetBranch owner repo fromBranch], Inl e)"
    by (subst createBranch.simps) simp
next
  assume "fromBranch \<noteq> ''main''"
  then show "lookups (fst (createBranch h owner repo newBranch fromBranch)) = 1"
    by (subst createBranch.simps) (simp add: lookups_def split: sum.splits)
qed

text \<open>A host without \<^verbatim>\<open>main\<close>: the run from the default goes on to \<^verbatim>\<open>master\<close>; the run
  from \<^verbatim>\<open>dev\<close> stops at the first failure.\<close>

theorem createBranch_main_master_once_witness:
  "createBranch
     \<lparr>getBranch = (\<lambda>owner repo b.
        if b = ''master'' then Inr ''c0ffee'' else Inl (ApiError 404 ''Branch not found'')),
      postRef = (\<lambda>owner repo ref sha. Inr ref)\<rparr>
     ''octo'' ''demo'' ''tests'' ''main''
   = ([GetBranch ''octo'' ''demo'' ''main'', GetBranch ''octo'' ''demo'' ''master'',
       PostRef ''octo'' ''demo'' ''refs/heads/tests'' ''c0ffee''],
      Inr ''refs/heads/tests'')
   \<and> createBranch
     \<lparr>getBranch = (\<lambda>owner repo b.
        if b = ''master'' then Inr ''c0ffee'' else Inl (ApiError 404 ''Branch not found'')),
      postRef = (\<lambda>owner repo ref sha. Inr ref)\<rparr>
     ''octo'' ''demo'' ''tests'' ''dev''
   = ([GetBranch ''octo'' ''demo'' ''dev''], Inl (ApiError 404 ''Branch not found''))"
  using createBranch_main_master_once
    [of "\<lparr>getBranch = (\<lambda>owner repo b.
        if b = ''master'' then Inr ''c0ffee'' else Inl (ApiError 404 ''Branch not found'')),
      postRef = (\<lambda>owner repo ref sha. Inr ref)\<rparr>"
      "''octo''" "''demo''" "ApiError 404 ''Branch not found''" "''tests''" "''dev''"]
  by simp

subsection \<open>The tree builder\<close>

lemma buildFileTree_append:
  "buildFileTree (xs @ ys) = buildFileTree xs @ buildFileTree ys"
  by (induction xs rule: buildFileTree.induct) (simp_all split: option.splits)

lemma buildFileTree_withFailedListing:
  "buildFileTree (withFailedListing p items) = withEmptyChildren p (buildFileTree items)"
  by (induction items rule: buildFileTree.induct) (simp_all split: option.splits)

text \<open>
  C3. A directory whose listing fails becomes a directory node with an empty children
  sequence, and the build goes on: the entries before and after it are built exactly as
  they are without it, at the top level and inside a directory that was listed. At any
  depth, the catalog built when the listing of the directory at a path fails is the
  catalog built otherwise, with the children of that directory's node emptied and nothing
  else changed.
\<close>

theorem buildFileTree_failed_listing_isolated:
  "buildFileTree (before @ GitHubFile name path ''dir'' None # after) =
     buildFileTree before @ FileItem name path ''directory'' None (Some [])
       # buildFileTree after
   \<and> buildFileTree (before @ after) = buildFileTree before @ buildFileTree after
   \<and> buildFileTree
        [GitHubFile pname ppath ''dir'' (Some (before @ GitHubFile name path ''dir'' None # after))] =
       [FileItem pname ppath ''directory'' None
          (Some (buildFileTree before @ FileItem name path ''directory'' None (Some [])
                   # buildFileTree after))]
   \<and> buildFileTree (withFailedListing p items) = withEmptyChildren p (buildFileTree items)"
  by (simp add: buildFileTree_append buildFileTree_withFailedListing)

theorem buildFileTree_failed_listing_isolated_witness:
  "buildFileTree
     ([GitHubFile ''a.py'' ''a.py'' ''file'' None]
      @ GitHubFile ''vault'' ''vault'' ''dir'' None
      # [GitHubFile ''lib'' ''lib'' ''dir''
           (Some [GitHubFile ''b.rs'' ''lib/b.rs'' ''file'' None])]) =
   [FileItem ''a.py'' ''a.py'' ''file'' (Some ''Python'') None,
    FileItem ''vault'' ''vault'' ''directory'' None (Some []),
    FileItem ''lib'' ''lib'' ''directory'' None
      (Some [FileItem ''b.rs'' ''lib/b.rs'' ''file'' (Some ''Rust'') None])]
   \<and> buildFileTree (withFailedListing ''lib/deep''
        [GitHubFile ''lib'' ''lib'' ''dir''
           (Some [GitHubFile ''deep'' ''lib/deep'' ''dir''
                    (Some [GitHubFile ''c.go'' ''lib/deep/c.go'' ''file'' None]),
                  GitHubFile ''b.rs'' ''lib/b.rs'' ''file'' None])]) =
   [FileItem ''lib'' ''lib'' ''directory'' None
      (Some [FileItem ''deep'' ''lib/deep'' ''directory'' None (Some []),
             FileItem ''b.rs'' ''lib/b.rs'' ''file'' (Some ''Rust'') None])]"
  using buildFileTree_failed_listing_isolated
    [of "[GitHubFile ''a.py'' ''a.py'' ''file'' None]" "''vault''" "''vault''"
        "[GitHubFile ''lib'' ''lib'' ''dir''
           (Some [GitHubFile ''b.rs'' ''lib/b.rs'' ''file'' None])]" _ _ "''lib/deep''"
        "[GitHubFile ''lib'' ''lib'' ''dir''
           (Some [GitHubFile ''deep'' ''lib/deep'' ''dir''
                    (Some [GitHubFile ''c.go'' ''lib/deep/c.go'' ''file'' None]),
                  GitHubFile ''b.rs'' ''lib/b.rs'' ''file'' None])]"]
  by (simp add: isTestableFile_def getFileLanguage_def ext_of_def or_empty_def pop_def
      toLowerCase_def toLowerChar_def testableExtensions_def languageMap_def)

subsection \<open>Testable files and their languages\<close>

lemma keys_languageMap: "map fst languageMap = testableExtensions"
  by (simp add: languageMap_def testableExtensions_def)

lemma isTestableFile_iff_key:
  "isTestableFile n \<longleftrightarrow> map_of languageMap (or_empty (ext_of n)) \<noteq> None"
  unfolding isTestableFile_def keys_languageMap [symmetric]
  by (simp add: map_of_eq_None_iff)

lemma languageMap_values:
  "map_of languageMap k = Some l \<Longrightarrow> l \<noteq> [] \<and> l \<noteq> ''Unknown''"
  by (auto simp: languageMap_def split: if_splits)

text \<open>The allow-list is the key set of the language table: a name is testable exactly when
  its language is not the sentinel.\<close>

lemma isTestableFile_iff_language:
  "isTestableFile n \<longleftrightarrow> getFileLanguage n \<noteq> ''Unknown''"
  using languageMap_values [of "or_empty (ext_of n)"]
  by (auto simp: isTestableFile_iff_key getFileLanguage_def split: option.splits)

text \<open>The file nodes of the catalog are the listed file entries with a testable name, in
  the order of the traversal, each with the language of its name.\<close>

lemma extractFiles_buildFileTree:
  "extractFiles (buildFileTree items) =
     map (\<lambda>g. FileItem (gh_name g) (gh_path g) ''file'' (Some (getFileLanguage (gh_name g))) None)
       (filter (\<lambda>g. isTestableFile (gh_name g)) (listedFiles items))"
  by (induction items rule: buildFileTree.induct) (simp_all split: option.splits)

lemma catalog_language_known:
  assumes "f \<in> set (extractFiles (buildFileTree items))"
  shows "\<exists>l. fi_language f = Some l \<and> l \<noteq> ''Unknown''"
  using assms by (auto simp: extractFiles_buildFileTree isTestableFile_iff_language)

text \<open>The segment \<^verbatim>\<open>split(".").pop()\<close> returns: the text after the last dot, and the whole
  name when it has no dot.\<close>

lemma split_nonempty: "split sep s \<noteq> []"
  by (induction s) (auto split: list.splits)

lemma split_no_sep: "sep \<notin> set s \<Longrightarrow> split sep s = [s]"
  by (induction s) auto

lemma split_has_sep: "sep \<in> set s \<Longrightarrow> \<exists>w w' ws. split sep s = w # w' # ws"
proof (induction s)
  case Nil
  then show ?case by simp
next
  case (Cons c cs)
  show ?case
  proof (cases "c = sep")
    case True
    then show ?thesis using split_nonempty [of sep cs]
      by (cases "split sep cs") auto
  next
    case False
    with Cons.prems have "sep \<in> set cs" by simp
    from Cons.IH [OF this] show ?thesis using False by auto
  qed
qed

lemma last_split: "last (split sep s) = rev (takeWhile (\<lambda>c. c \<noteq> sep) (rev s))"
proof (induction s)
  case Nil
  show ?case by simp
next
  case (Cons c cs)
  show ?case
  proof (cases "sep \<in> set cs")
    case True
    from split_has_sep [OF True] obtain w w' ws where ws: "split sep cs = w # w' # ws"
      by blast
    have "last (split sep (c # cs)) = last (split sep cs)"
      using ws by simp
    moreover have "takeWhile (\<lambda>c. c \<noteq> sep) (rev cs @ [c]) = takeWhile (\<lambda>c. c \<noteq> sep) (rev cs)"
      using True by (intro takeWhile_append1 [where x = sep]) auto
    ultimately show ?thesis using Cons.IH by simp
  next
    case False
    then have cs: "split sep cs = [cs]" by (rule split_no_sep)
    have all: "takeWhile (\<lambda>c. c \<noteq> sep) (rev cs @ [c]) = rev cs @ takeWhile (\<lambda>c. c \<noteq> sep) [c]"
      using False by (intro takeWhile_append2) auto
    show ?thesis using cs all by simp
  qed
qed

lemma ext_of_eq:
  "ext_of n = Some (toLowerCase (rev (takeWhile (\<lambda>c. c \<noteq> CHR ''.'') (rev n))))"
  by (simp add: ext_of_def pop_def split_nonempty last_split)

lemma ext_of_dotless: "CHR ''.'' \<notin> set n \<Longrightarrow> ext_of n = Some (toLowerCase n)"
  by (simp add: ext_of_def pop_def split_no_sep)

text \<open>
  C5. A name without a dot is its own last segment, so a file named after an allow-listed
  extension is catalogued: the entry \<^verbatim>\<open>go\<close> (no dot, hence no extension) becomes a file node
  of language Go.
\<close>

theorem buildFileTree_dotless_name:
  "buildFileTree [GitHubFile ''go'' ''go'' ''file'' None] =
     [FileItem ''go'' ''go'' ''file'' (Some ''Go'') None]
   \<and> CHR ''.'' \<notin> set ''go'' \<and> isTestableFile ''go''"
  by (simp add: isTestableFile_def getFileLanguage_def ext_of_def or_empty_def pop_def
      toLowerCase_def toLowerChar_def testableExtensions_def languageMap_def)

subsection \<open>The deterministic generators\<close>

lemma generateUnitTestCode_foo:
  "generateUnitTestCode ''foo'' ''src/foo.ts'' b = unitTestCode_foo"
  by (simp add: generateUnitTestCode_def unitTestCode_foo_def stripSourceExt_def endsWith_def
      quoted_def sq_def)

lemma mock_code_unit:
  assumes "ts_testType s = ''unit''" and "ts_functionName s = Some f" and "f \<noteq> []"
  shows "gt_code (MockAIService_generateTestCode s) =
           generateUnitTestCode f (ts_filePath s) (isTypeScript (ts_filePath s))"
  using assms by (simp add: MockAIService_generateTestCode_def Let_def)

lemma unitTestCode_foo_shape:
  "startsWith unitTestCode_foo (''import { foo } from '' @ quoted ''src/foo'' @ '';'')
   \<and> occurrences unitTestCode_foo ''test('' = 3
   \<and> includes_str unitTestCode_foo ''expect(result).toEqual(expected);''
   \<and> includes_str unitTestCode_foo ''expect(() => foo(null)).not.toThrow();''
   \<and> includes_str unitTestCode_foo ''expect(() => foo(undefined)).not.toThrow();''
   \<and> includes_str unitTestCode_foo ''expect(() => foo(invalidInput)).toThrow();''"
  by code_simp

text \<open>
  C6, as the code has it. The generator behind \<^verbatim>\<open>AIService.generateTestCode\<close>
  (\<^verbatim>\<open>MockAIService.generateTestCode\<close>), on a unit-type summary with function name
  \<^verbatim>\<open>foo\<close> and file path \<^verbatim>\<open>src/foo.ts\<close>, yields the skeleton that imports \<^verbatim>\<open>foo\<close> from
  \<^verbatim>\<open>'src/foo'\<close> and has three test blocks: the equality check on a valid input, the two
  non-throw checks for \<^verbatim>\<open>null\<close> and \<^verbatim>\<open>undefined\<close>, the throw check for an invalid input.
  The server action's \<^verbatim>\<open>createFallbackTestCode\<close> starts with the same import.
\<close>

theorem mock_fallback_unit_foo:
  assumes "ts_testType s = ''unit''" and "ts_functionName s = Some ''foo''"
    and "ts_filePath s = ''src/foo.ts''"
  shows "gt_code (MockAIService_generateTestCode s) = unitTestCode_foo
   \<and> startsWith unitTestCode_foo (''import { foo } from '' @ quoted ''src/foo'' @ '';'')
   \<and> occurrences unitTestCode_foo ''test('' = 3
   \<and> includes_str unitTestCode_foo ''expect(result).toEqual(expected);''
   \<and> includes_str unitTestCode_foo ''expect(() => foo(null)).not.toThrow();''
   \<and> includes_str unitTestCode_foo ''expect(() => foo(undefined)).not.toThrow();''
   \<and> includes_str unitTestCode_foo ''expect(() => foo(invalidInput)).toThrow();''
   \<and> startsWith (gt_code (createFallbackTestCode s))
         (''import { foo } from '' @ quoted ''src/foo'' @ '';'')"
proof -
  have code: "gt_code (MockAIService_generateTestCode s) = unitTestCode_foo"
    using assms by (simp add: mock_code_unit generateUnitTestCode_foo)
  have fb: "startsWith (gt_code (createFallbackTestCode s))
         (''import { foo } from '' @ quoted ''src/foo'' @ '';'')"
    using assms
    by (simp add: createFallbackTestCode_def stripSourceExt_def endsWith_def quoted_def sq_def)
  show ?thesis
    using code fb unitTestCode_foo_shape by blast
qed

theorem mock_fallback_unit_foo_witness:
  "gt_code (MockAIService_generateTestCode fooSummary) = unitTestCode_foo
   \<and> occurrences unitTestCode_foo ''test('' = 3
   \<and> startsWith (gt_code (createFallbackTestCode fooSummary))
         (''import { foo } from '' @ quoted ''src/foo'' @ '';'')"
  using mock_fallback_unit_foo [of fooSummary] by (simp add: fooSummary_def)

text \<open>The server action's fallback on the same summary: one test block, a placeholder
  assertion, none of the three checks.\<close>

theorem createFallbackTestCode_one_block:
  "occurrences (gt_code (createFallbackTestCode fooSummary)) ''test('' = 1
   \<and> includes_str (gt_code (createFallbackTestCode fooSummary)) ''expect(true).toBe(true);''
   \<and> \<not> includes_str (gt_code (createFallbackTestCode fooSummary)) ''toEqual''
   \<and> \<not> includes_str (gt_code (createFallbackTestCode fooSummary)) ''toThrow''"
  by code_simp

subsection \<open>Phase 2: code for the selected summaries\<close>

lemma generatedCodes_Inr:
  "generatedCodes (\<lambda>k s. Inr (f k s)) k sel = map (\<lambda>(i, s). f i s) (enumerate k sel)"
  by (induction sel arbitrary: k) simp_all

lemma generatedCodes_Inl:
  "(\<And>k s. \<exists>e. service k s = Inl e) \<Longrightarrow> generatedCodes service k sel = []"
proof (induction sel arbitrary: k)
  case Nil
  show ?case by simp
next
  case (Cons s sel)
  obtain e where "service k s = Inl e" using Cons.prems by blast
  then show ?case using Cons by simp
qed

lemma generatedCodes_length_le: "length (generatedCodes service k sel) \<le> length sel"
  by (induction sel arbitrary: k) (auto split: sum.splits intro: le_SucI)

lemma createFallbackTestCode_nonempty: "gt_code (createFallbackTestCode s) \<noteq> []"
  by (simp add: createFallbackTestCode_def Let_def)

lemma MockAIService_code_nonempty: "gt_code (MockAIService_generateTestCode s) \<noteq> []"
  by (simp add: MockAIService_generateTestCode_def Let_def generateUnitTestCode_def
      generateIntegrationTestCode_def generateEdgeCaseTestCode_def split: option.splits)

lemma action_with_key:
  "hasKey apiKey \<Longrightarrow>
   generateTestCodeAction apiKey outcome s =
     Inr (case outcome of
            Throws \<Rightarrow> createFallbackTestCode s
          | Text r \<Rightarrow>
              \<lparr>gt_id = ''test-'' @ ts_id s, gt_summaryId = ts_id s,
               gt_code = trim (removeMatches fenceWord r), gt_framework = ''jest'',
               gt_language = languageOf (ts_filePath s)\<rparr>)"
  by (simp add: generateTestCodeAction_def split: ai_outcome.splits)

lemma action_summaryId:
  "generateTestCodeAction apiKey outcome s = Inr t \<Longrightarrow> gt_summaryId t = ts_id s"
  by (auto simp: generateTestCodeAction_def createFallbackTestCode_def Let_def
      split: if_splits ai_outcome.splits)

lemma service_summaryId: "gt_summaryId (AIService_generateTestCode apiKey outcome s) = ts_id s"
  by (simp add: AIService_generateTestCode_def MockAIService_generateTestCode_def Let_def
      split: ai_outcome.splits)

text \<open>The version of the service that is the deterministic generator: one record per
  summary, each with code.\<close>

lemma mock_service_codes:
  "length (generatedCodes (\<lambda>k s. (Inr (AIService_generateTestCode_mock s) :: action_error + GeneratedTestCode)) 0 sel)
     = length sel
   \<and> (\<forall>t \<in> set (generatedCodes
          (\<lambda>k s. (Inr (AIService_generateTestCode_mock s) :: action_error + GeneratedTestCode)) 0 sel).
        gt_code t \<noteq> [])"
  by (auto simp: generatedCodes_Inr AIService_generateTestCode_mock_def
      MockAIService_code_nonempty in_set_enumerate_eq)

text \<open>
  C2, as the code has it. For the summaries selected, the loop over the server action
  returns at most one record per summary, in selection order. With the access key set it
  returns exactly one per summary, each naming its summary; the record of a round whose
  request throws carries the fallback's code, which is never empty, and the record of a
  round that got a reply carries that reply with fences removed and trimmed. Without the
  key every call throws and nothing is returned. The loop over
  \<^verbatim>\<open>AIService.generateTestCode\<close>, which never throws, returns exactly one record per
  summary in every run.
\<close>

theorem phase2_codes:
  assumes sel: "sel = selectedSummaryList summaries selection"
    and out: "out = generatedCodes (\<lambda>k. generateTestCodeAction apiKey (ai k)) 0 sel"
    and out': "out' = generatedCodes
        (\<lambda>k s. (Inr (AIService_generateTestCode apiKey (ai k) s) :: action_error + GeneratedTestCode))
        0 sel"
  shows "length out \<le> length sel
    \<and> (\<not> hasKey apiKey \<longrightarrow> out = [])
    \<and> (hasKey apiKey \<longrightarrow>
         length out = length sel \<and> map gt_summaryId out = map ts_id sel
         \<and> (\<forall>i<length sel.
               gt_code (out ! i) =
                 (case ai i of
                    Throws \<Rightarrow> gt_code (createFallbackTestCode (sel ! i))
                  | Text r \<Rightarrow> trim (removeMatches fenceWord r))
               \<and> (ai i = Throws \<longrightarrow> gt_code (out ! i) \<noteq> [])))
    \<and> length out' = length sel \<and> map gt_summaryId out' = map ts_id sel
    \<and> (\<forall>i<length sel. ai i = Throws \<or> \<not> hasKey apiKey \<longrightarrow> gt_code (out' ! i) \<noteq> [])"
proof (intro conjI impI)
  show "length out \<le> length sel"
    unfolding out by (rule generatedCodes_length_le)
next
  assume "\<not> hasKey apiKey"
  then show "out = []"
    unfolding out by (intro generatedCodes_Inl) (simp add: generateTestCodeAction_def)
next
  assume key: "hasKey apiKey"
  let ?f = "\<lambda>k s. case ai k of
            Throws \<Rightarrow> createFallbackTestCode s
          | Text r \<Rightarrow>
              \<lparr>gt_id = ''test-'' @ ts_id s, gt_summaryId = ts_id s,
               gt_code = trim (removeMatches fenceWord r), gt_framework = ''jest'',
               gt_language = languageOf (ts_filePath s)\<rparr>"
  have "(\<lambda>k. generateTestCodeAction apiKey (ai k)) = (\<lambda>k s. Inr (?f k s))"
    using key by (intro ext) (simp add: action_with_key)
  then have eq: "out = map (\<lambda>(i, s). ?f i s) (enumerate 0 sel)"
    unfolding out by (simp only: generatedCodes_Inr)
  show len: "length out = length sel"
    by (simp add: eq)
  have nth: "out ! i = ?f i (sel ! i)" if "i < length sel" for i
    using that by (simp add: eq nth_enumerate_eq)
  show "map gt_summaryId out = map ts_id sel"
  proof (rule nth_equalityI)
    show "length (map gt_summaryId out) = length (map ts_id sel)" by (simp add: len)
  next
    fix i assume "i < length (map gt_summaryId out)"
    then have i: "i < length sel" by (simp add: len)
    then show "map gt_summaryId out ! i = map ts_id sel ! i"
      by (simp add: len nth createFallbackTestCode_def Let_def split: ai_outcome.splits)
  qed
  show "\<forall>i<length sel.
               gt_code (out ! i) =
                 (case ai i of
                    Throws \<Rightarrow> gt_code (createFallbackTestCode (sel ! i))
                  | Text r \<Rightarrow> trim (removeMatches fenceWord r))
               \<and> (ai i = Throws \<longrightarrow> gt_code (out ! i) \<noteq> [])"
    by (auto simp: nth createFallbackTestCode_nonempty split: ai_outcome.splits)
next
  have eq': "out' = map (\<lambda>(i, s). AIService_generateTestCode apiKey (ai i) s) (enumerate 0 sel)"
    unfolding out' by (simp only: generatedCodes_Inr)
  show len': "length out' = length sel"
    by (simp add: eq')
  have nth': "out' ! i = AIService_generateTestCode apiKey (ai i) (sel ! i)"
    if "i < length sel" for i
    using that by (simp add: eq' nth_enumerate_eq)
  show "map gt_summaryId out' = map ts_id sel"
  proof (rule nth_equalityI)
    show "length (map gt_summaryId out') = length (map ts_id sel)" by (simp add: len')
  next
    fix i assume "i < length (map gt_summaryId out')"
    then have i: "i < length sel" by (simp add: len')
    then show "map gt_summaryId out' ! i = map ts_id sel ! i"
      by (simp add: len' nth' service_summaryId)
  qed
  show "\<forall>i<length sel. ai i = Throws \<or> \<not> hasKey apiKey \<longrightarrow> gt_code (out' ! i) \<noteq> []"
    by (auto simp: nth' AIService_generateTestCode_def MockAIService_code_nonempty)
qed

text \<open>Two summaries selected, every request failing: with the key set two records, in
  order, both with code; without the key none.\<close>

theorem phase2_codes_witness:
  "length (generatedCodes (\<lambda>k. generateTestCodeAction (Some ''key'') Throws) 0
     (selectedSummaryList [fooSummary, fooSummary\<lparr>ts_id := ''gemini-1762160000000-1''\<rparr>]
        {''gemini-1762160000000-0'', ''gemini-1762160000000-1''})) = 2
   \<and> map gt_summaryId (generatedCodes (\<lambda>k. generateTestCodeAction (Some ''key'') Throws) 0
     (selectedSummaryList [fooSummary, fooSummary\<lparr>ts_id := ''gemini-1762160000000-1''\<rparr>]
        {''gemini-1762160000000-0'', ''gemini-1762160000000-1''}))
     = [''gemini-1762160000000-0'', ''gemini-1762160000000-1'']
   \<and> gt_code (generatedCodes (\<lambda>k. generateTestCodeAction (Some ''key'') Throws) 0
     (selectedSummaryList [fooSummary, fooSummary\<lparr>ts_id := ''gemini-1762160000000-1''\<rparr>]
        {''gemini-1762160000000-0'', ''gemini-1762160000000-1''}) ! 1) \<noteq> []
   \<and> generatedCodes (\<lambda>k. generateTestCodeAction None Throws) 0
     (selectedSummaryList [fooSummary, fooSummary\<lparr>ts_id := ''gemini-1762160000000-1''\<rparr>]
        {''gemini-1762160000000-0'', ''gemini-1762160000000-1''}) = []"
  using phase2_codes [OF refl refl refl, of "Some ''key''" "\<lambda>k. Throws"
      "[fooSummary, fooSummary\<lparr>ts_id := ''gemini-1762160000000-1''\<rparr>]"
      "{''gemini-1762160000000-0'', ''gemini-1762160000000-1''}"]
    phase2_codes [OF refl refl refl, of None "\<lambda>k. Throws"
      "[fooSummary, fooSummary\<lparr>ts_id := ''gemini-1762160000000-1''\<rparr>]"
      "{''gemini-1762160000000-0'', ''gemini-1762160000000-1''}"]
  by (simp add: selectedSummaryList_def fooSummary_def hasKey_def generateTestCodeAction_def
      createFallbackTestCode_def)

text \<open>A reply that is an empty fenced block: the record is there, its code is empty.\<close>

theorem phase2_empty_code:
  "map gt_code (generatedCodes
      (\<lambda>k. generateTestCodeAction (Some ''key'') (Text ''```typescript\<newline>```'')) 0
      (selectedSummaryList [fooSummary] {''gemini-1762160000000-0''})) = [[]]"
  by (simp add: selectedSummaryList_def fooSummary_def generateTestCodeAction_def hasKey_def
      fenceWord_def optNewline_def isWord_def trim_def isSpace_def)

subsection \<open>Phase 1: summaries for the selected files\<close>





























text \<open>Two requests that fail within the same millisecond: the two fallback summaries
  share their id.\<close>

lemma phase1_same_millisecond:
  "map ts_id (summariesLoop JSON_parse (\<lambda>t. 1762160000000) (\<lambda>k. Throws) 0 0
     [\<lparr>fc_path = ''src/a.ts'', fc_content = ''''\<rparr>, \<lparr>fc_path = ''src/b.ts'', fc_content = ''''\<rparr>])
   = [''fallback-1762160000000'', ''fallback-1762160000000'']"
  by (simp add: createFallbackSummary_def fallbackId_def digits.simps digitChar_def)

subsection \<open>The workflow\<close>

lemma handleBack_fileBrowser:
  "appState s = FileBrowser \<Longrightarrow>
   handleBack s = s\<lparr>appState := RepoSelect, selectedRepo := None, files := [], selectedFiles := []\<rparr>"
  by (simp add: handleBack_def)

lemma fire_enters_pr:
  assumes "appState (fire e s) = PrCreation" and "appState s \<noteq> PrCreation"
  shows "e = CreatePR \<and> appState s = TestGeneration \<and> generatedTests s \<noteq> []
    \<and> prTestCases (fire e s) = generatedTests s"
  using assms
  by (cases e)
     (auto simp: fire_def remount_def handleAuthentication_def handleRepositorySelect_def
        handleFileSelect_def handleGenerateTests_def handleBack_def handleManageTests_def
        handleCreatePR_def generateSummaries_def toggleSummarySelection_def
        selectAllSummaries_def clearAllSummaries_def generateTestCode_def
        split: if_splits option.splits AppState.splits prod.splits)

lemma fire_keeps_pr_cases:
  assumes "appState (fire e s) = PrCreation" and "appState s = PrCreation"
  shows "prTestCases (fire e s) = prTestCases s"
  using assms
  by (cases e)
     (auto simp: fire_def remount_def handleBack_def split: if_splits)

lemma fire_invariant:
  assumes "appState s = PrCreation \<longrightarrow> prTestCases s \<noteq> []"
  shows "appState (fire e s) = PrCreation \<longrightarrow> prTestCases (fire e s) \<noteq> []"
  using assms fire_enters_pr [of e s] fire_keeps_pr_cases [of e s] by (cases "appState s = PrCreation") auto

lemma run_invariant:
  "(appState s = PrCreation \<longrightarrow> prTestCases s \<noteq> []) \<Longrightarrow>
   appState (run es s) = PrCreation \<longrightarrow> prTestCases (run es s) \<noteq> []"
proof (induction es arbitrary: s)
  case Nil
  then show ?case by simp
next
  case (Cons e es)
  from Cons.prems have "appState (fire e s) = PrCreation \<longrightarrow> prTestCases (fire e s) \<noteq> []"
    by (rule fire_invariant)
  from Cons.IH [OF this] show ?case by simp
qed


text \<open>The page's own handler sets the state whatever it is given: the gate is the
  component's, which renders the button only over a non-empty list.\<close>

lemma handleCreatePR_unguarded: "appState (handleCreatePR [] [] s) = PrCreation"
  by (simp add: handleCreatePR_def)

text \<open>
  C4. Back from file-browser leads to repo-select with the file tree and the selection
  empty. A step enters pr-creation only by the Create PR button, from test-generation and
  over a non-empty list of generated tests, which becomes the list of the pull request;
  with no generated test the button is not there and the step changes nothing. In every
  state the page reaches from its initial state, pr-creation comes with a non-empty list
  of tests.
\<close>

theorem workflow_back_and_pr_gate:
  "(appState s = FileBrowser \<longrightarrow>
      appState (fire Back s) = RepoSelect \<and> files (fire Back s) = []
      \<and> selectedFiles (fire Back s) = []
      \<and> handleBack s =
          s\<lparr>appState := RepoSelect, selectedRepo := None, files := [], selectedFiles := []\<rparr>)
   \<and> (appState s \<noteq> PrCreation \<and> appState (fire e s) = PrCreation \<longrightarrow>
        e = CreatePR \<and> appState s = TestGeneration \<and> generatedTests s \<noteq> []
        \<and> prTestCases (fire e s) = generatedTests s)
   \<and> (generatedTests s = [] \<longrightarrow> fire CreatePR s = s)
   \<and> (appState (run es initialPage) = PrCreation \<longrightarrow> prTestCases (run es initialPage) \<noteq> [])"
proof (intro conjI impI)
  assume fb: "appState s = FileBrowser"
  then show "handleBack s =
      s\<lparr>appState := RepoSelect, selectedRepo := None, files := [], selectedFiles := []\<rparr>"
    by (rule handleBack_fileBrowser)
  then show "appState (fire Back s) = RepoSelect" "files (fire Back s) = []"
    "selectedFiles (fire Back s) = []"
    using fb by (simp_all add: fire_def remount_def)
next
  assume "appState s \<noteq> PrCreation \<and> appState (fire e s) = PrCreation"
  then have "e = CreatePR \<and> appState s = TestGeneration \<and> generatedTests s \<noteq> []
    \<and> prTestCases (fire e s) = generatedTests s"
    using fire_enters_pr [of e s] by blast
  then show "e = CreatePR" "appState s = TestGeneration" "generatedTests s \<noteq> []"
    "prTestCases (fire e s) = generatedTests s"
    by blast+
next
  assume "generatedTests s = []"
  then show "fire CreatePR s = s" by (simp add: fire_def)
next
  assume "appState (run es initialPage) = PrCreation"
  moreover have "appState initialPage = PrCreation \<longrightarrow> prTestCases initialPage \<noteq> []"
    by (simp add: initialPage_def)
  ultimately show "prTestCases (run es initialPage) \<noteq> []"
    using run_invariant [of initialPage es] by blast
qed

text \<open>The example session: to the file browser, where Back leads to repo-select and Create
  PR does nothing; on to test generation, where Create PR opens pr-creation over the
  generated test.\<close>

theorem workflow_back_and_pr_gate_witness:
  "appState (run (exampleBrowse @ [Back]) initialPage) = RepoSelect
   \<and> files (run (exampleBrowse @ [Back]) initialPage) = []
   \<and> selectedFiles (run (exampleBrowse @ [Back]) initialPage) = []
   \<and> fire CreatePR (run exampleBrowse initialPage) = run exampleBrowse initialPage
   \<and> generatedTests (run (exampleBrowse @ exampleGenerate) initialPage) \<noteq> []
   \<and> appState (run (exampleBrowse @ exampleGenerate @ [CreatePR]) initialPage) = PrCreation
   \<and> prTestCases (run (exampleBrowse @ exampleGenerate @ [CreatePR]) initialPage)
       = generatedTests (run (exampleBrowse @ exampleGenerate) initialPage)
   \<and> prTestCases (run (exampleBrowse @ exampleGenerate @ [CreatePR]) initialPage) \<noteq> []"
proof -
  let ?s = "run exampleBrowse initialPage"
  let ?g = "run (exampleBrowse @ exampleGenerate) initialPage"
  have run_snoc: "run (es @ [e]) s = fire e (run es s)" for es e s
    by (induction es arbitrary: s) simp_all
  have browse: "appState ?s = FileBrowser" and none: "generatedTests ?s = []"
    by (simp_all add: exampleBrowse_def initialPage_def fire_def remount_def
        handleAuthentication_def handleRepositorySelect_def handleFileSelect_def)
  have gen: "appState ?g = TestGeneration"
    by (simp add: exampleBrowse_def exampleGenerate_def initialPage_def fire_def remount_def
        handleAuthentication_def handleRepositorySelect_def handleFileSelect_def
        handleGenerateTests_def generateSummaries_def generateTestCode_def
        selectedSummaryList_def fooSummary_def)
  have pr: "appState (fire CreatePR ?g) = PrCreation"
    by (simp add: exampleBrowse_def exampleGenerate_def initialPage_def fire_def remount_def
        handleAuthentication_def handleRepositorySelect_def handleFileSelect_def
        handleGenerateTests_def generateSummaries_def generateTestCode_def handleCreatePR_def
        selectedSummaryList_def fooSummary_def)
  have snoc: "run (exampleBrowse @ exampleGenerate @ [CreatePR]) initialPage = fire CreatePR ?g"
    using run_snoc [of "exampleBrowse @ exampleGenerate" CreatePR initialPage] by simp
  note first = workflow_back_and_pr_gate [of ?s Back "exampleBrowse @ exampleGenerate @ [CreatePR]"]
  note second = workflow_back_and_pr_gate [of ?g CreatePR "[]"]
  from first browse have
    "appState (fire Back ?s) = RepoSelect" "files (fire Back ?s) = []"
    "selectedFiles (fire Back ?s) = []"
    by blast+
  moreover from first none have "fire CreatePR ?s = ?s" by blast
  moreover from second gen pr have "generatedTests ?g \<noteq> []"
    "prTestCases (fire CreatePR ?g) = generatedTests ?g"
    by auto
  moreover have "prTestCases (fire CreatePR ?g) \<noteq> []"
  proof -
    from first have "appState (run (exampleBrowse @ exampleGenerate @ [CreatePR]) initialPage)
        = PrCreation \<longrightarrow>
      prTestCases (run (exampleBrowse @ exampleGenerate @ [CreatePR]) initialPage) \<noteq> []"
      by blast
    then show ?thesis unfolding snoc using pr by blast
  qed
  ultimately show ?thesis
    unfolding snoc run_snoc using pr by blast
qed

subsection \<open>Export\<close>

lemma join_from_concat: "join_from sep acc xs = acc @ concat (map (\<lambda>x. sep @ x) xs)"
  by (induction xs arbitrary: acc) simp_all

lemma codeBundle_concat:
  "codeBundle (x # xs) = x @ concat (map (\<lambda>y. ''\<newline>\<newline>'' @ y) xs)"
  by (induction xs arbitrary: x) simp_all

lemma join_codeBundle: "join ''\<newline>\<newline>'' xs = codeBundle xs"
proof (cases xs)
  case Nil
  then show ?thesis by (simp add: join_def)
next
  case (Cons x rest)
  then show ?thesis
    by (simp only: join_def list.case join_from_concat codeBundle_concat)
qed

text \<open>
  C7. The jest export hands out, as a plain-text download named after the suite, the
  code bodies of the suite's test cases in suite order with a blank line between two that
  follow each other; whatever the format, the manager (suites and store) is afterwards
  what it was, and the suite is only read.
\<close>

theorem exportTestSuite_jest_bundle:
  "exportTestSuite suite ''jest'' st =
     (st, Some \<lparr>dl_name = toLowerCase (dashSpaces (su_name suite)) @ ''.test.js'',
                dl_type = ''text/plain'',
                dl_blob = PlainText (codeBundle (map tc_code (su_testCases suite)))\<rparr>)
   \<and> fst (exportTestSuite suite format st) = st"
  by (simp add: exportTestSuite_def join_codeBundle)

text \<open>A suite named ``My Suite'' with two one-line test cases.\<close>

theorem exportTestSuite_jest_bundle_witness:
  "exportTestSuite
     \<lparr>su_id = ''suite-1'', su_name = ''My Suite'', su_description = ''two cases'',
      su_createdAt = 1762161540000, su_updatedAt = 1762161540000, su_tags = [],
      su_testCases =
        [\<lparr>tc_id = ''t1'', tc_title = ''a'', tc_description = ''first'', tc_code = ''a();'',
          tc_testType = ''unit'', tc_priority = ''high'', tc_status = ''draft'',
          tc_filePath = ''a.js'', tc_functionName = None,
          tc_createdAt = 1762161540000, tc_updatedAt = 1762161540000\<rparr>,
         \<lparr>tc_id = ''t2'', tc_title = ''b'', tc_description = ''second'', tc_code = ''b();'',
          tc_testType = ''unit'', tc_priority = ''low'', tc_status = ''ready'',
          tc_filePath = ''b.js'', tc_functionName = None,
          tc_createdAt = 1762161540000, tc_updatedAt = 1762161540000\<rparr>],
      su_framework = ''jest'', su_language = ''javascript''\<rparr>
     ''jest'' \<lparr>testSuites = [], localStorage = None\<rparr>
   = (\<lparr>testSuites = [], localStorage = None\<rparr>,
      Some \<lparr>dl_name = ''my-suite.test.js'', dl_type = ''text/plain'',
            dl_blob = PlainText ''a();\<newline>\<newline>b();''\<rparr>)"
  using exportTestSuite_jest_bundle
    [of "\<lparr>su_id = ''suite-1'', su_name = ''My Suite'', su_description = ''two cases'',
      su_createdAt = 1762161540000, su_updatedAt = 1762161540000, su_tags = [],
      su_testCases =
        [\<lparr>tc_id = ''t1'', tc_title = ''a'', tc_description = ''first'', tc_code = ''a();'',
          tc_testType = ''unit'', tc_priority = ''high'', tc_status = ''draft'',
          tc_filePath = ''a.js'', tc_functionName = None,
          tc_createdAt = 1762161540000, tc_updatedAt = 1762161540000\<rparr>,
         \<lparr>tc_id = ''t2'', tc_title = ''b'', tc_description = ''second'', tc_code = ''b();'',
          tc_testType = ''unit'', tc_priority = ''low'', tc_status = ''ready'',
          tc_filePath = ''b.js'', tc_functionName = None,
          tc_createdAt = 1762161540000, tc_updatedAt = 1762161540000\<rparr>],
      su_framework = ''jest'', su_language = ''javascript''\<rparr>"
     "\<lparr>testSuites = [], localStorage = None\<rparr>"]
  by (simp add: isSpace_def toLowerCase_def toLowerChar_def)

subsection \<open>The store\<close>










lemma example_day: "dayOf 1762161540001 = 20395"
  by (simp add: dayOf_def)


end
